theory Spec2Isabelle
  imports Main
begin

section \<open>JavaScript values\<close>

text \<open>
  The values a parsed JSON body can hold, and \<open>undefined\<close> for a property that
  is absent. Numbers are integers here; the handlers only test them for truthiness.
  An object is the list of its own properties, looked up by name.
\<close>

datatype jsval =
    JUndef
  | JNull
  | JBool bool
  | JNum int
  | JStr string
  | JArr "jsval list"
  | JObj "(string \<times> jsval) list"

text \<open>\<open>!v\<close>: the values JavaScript converts to \<open>false\<close>.\<close>

fun falsy :: "jsval \<Rightarrow> bool" where
  "falsy JUndef = True"
| "falsy JNull = True"
| "falsy (JBool b) = (\<not> b)"
| "falsy (JNum n) = (n = 0)"
| "falsy (JStr s) = (s = [])"
| "falsy (JArr xs) = False"
| "falsy (JObj kvs) = False"

definition truthy :: "jsval \<Rightarrow> bool" where
  "truthy v = (\<not> falsy v)"

text \<open>\<open>a !== b\<close> on values of one type.\<close>

definition strict_neq :: "'a \<Rightarrow> 'a \<Rightarrow> bool" where
  "strict_neq a b = (a \<noteq> b)"

text \<open>\<open>a ?? b\<close>.\<close>

definition nullish_or :: "jsval \<Rightarrow> jsval \<Rightarrow> jsval" where
  "nullish_or a b = (if a = JUndef \<or> a = JNull then b else a)"

text \<open>
  Reading a named property for the destructuring \<open>const { env, appId, ... } = body\<close>:
  an object yields the property or \<open>undefined\<close>; the other non-nullish values have
  none of the names read here.
\<close>

fun get_prop :: "jsval \<Rightarrow> string \<Rightarrow> jsval" where
  "get_prop (JObj kvs) k = (case map_of kvs k of None \<Rightarrow> JUndef | Some v \<Rightarrow> v)"
| "get_prop v k = JUndef"

section \<open>The datastore\<close>

text \<open>
  A bound query parameter: a value passed as it is, or the text
  \<open>JSON.stringify(v)\<close>.
\<close>

datatype param = Raw jsval | JsonText jsval

text \<open>
  A stored cell: a bound parameter or a timestamp of the store's clock. A cell
  records the parameter as the handler bound it. How the driver encodes a bound
  value on the wire (a raw array as an array literal, a string as it is) and how the
  column's type reads that text are not part of the source and are not modelled.
\<close>

datatype cell = Val param | Stamp nat

datatype column =
    App_name | App_id | App_version | App_code | Has_triggers | Has_actions
  | Git_sha | Tags | Created_at | Updated_at

record row =
  app_name :: cell
  app_id :: cell
  app_version :: cell
  app_code :: cell
  has_triggers :: cell
  has_actions :: cell
  git_sha :: cell
  tags :: cell
  created_at :: cell
  updated_at :: cell

fun get_col :: "column \<Rightarrow> row \<Rightarrow> cell" where
  "get_col App_name r = app_name r"
| "get_col App_id r = app_id r"
| "get_col App_version r = app_version r"
| "get_col App_code r = app_code r"
| "get_col Has_triggers r = has_triggers r"
| "get_col Has_actions r = has_actions r"
| "get_col Git_sha r = git_sha r"
| "get_col Tags r = tags r"
| "get_col Created_at r = created_at r"
| "get_col Updated_at r = updated_at r"

fun set_col :: "column \<Rightarrow> cell \<Rightarrow> row \<Rightarrow> row" where
  "set_col App_name v r = r\<lparr>app_name := v\<rparr>"
| "set_col App_id v r = r\<lparr>app_id := v\<rparr>"
| "set_col App_version v r = r\<lparr>app_version := v\<rparr>"
| "set_col App_code v r = r\<lparr>app_code := v\<rparr>"
| "set_col Has_triggers v r = r\<lparr>has_triggers := v\<rparr>"
| "set_col Has_actions v r = r\<lparr>has_actions := v\<rparr>"
| "set_col Git_sha v r = r\<lparr>git_sha := v\<rparr>"
| "set_col Tags v r = r\<lparr>tags := v\<rparr>"
| "set_col Created_at v r = r\<lparr>created_at := v\<rparr>"
| "set_col Updated_at v r = r\<lparr>updated_at := v\<rparr>"

definition null_row :: row where
  "null_row =
     \<lparr>app_name = Val (Raw JNull), app_id = Val (Raw JNull), app_version = Val (Raw JNull),
      app_code = Val (Raw JNull), has_triggers = Val (Raw JNull),
      has_actions = Val (Raw JNull), git_sha = Val (Raw JNull), tags = Val (Raw JNull),
      created_at = Val (Raw JNull), updated_at = Val (Raw JNull)\<rparr>"

text \<open>
  The right-hand side of an assignment or a \<open>VALUES\<close> entry: the placeholder
  \<open>$n\<close>, the placeholder with a cast \<open>$n::jsonb\<close>, or the current time
  (\<open>CURRENT_TIMESTAMP\<close> in the upsert service, \<open>NOW()\<close> in the update-only one).
\<close>

datatype rhs = Dollar nat | DollarJsonb nat | CurrentTimestamp | NowCall

text \<open>
  The three statement shapes the services send:
  \<open>SELECT c FROM app WHERE w = $n\<close>,
  \<open>UPDATE app SET ... WHERE w = $n RETURNING ...\<close> and
  \<open>INSERT INTO app (...) VALUES (...) RETURNING ...\<close>.
\<close>

datatype query =
    Select column column nat
  | Update "(column \<times> rhs) list" column nat "column list"
  | Insert "column list" "rhs list" "column list"

record qresult =
  rowCount :: nat
  rows :: "(column \<times> cell) list list"

fun eval_rhs :: "nat \<Rightarrow> param list \<Rightarrow> rhs \<Rightarrow> cell option" where
  "eval_rhs t vs (Dollar n) =
     (if 1 \<le> n \<and> n \<le> length vs then Some (Val (vs ! (n - 1))) else None)"
| "eval_rhs t vs (DollarJsonb n) =
     (if 1 \<le> n \<and> n \<le> length vs then Some (Val (vs ! (n - 1))) else None)"
| "eval_rhs t vs CurrentTimestamp = Some (Stamp t)"
| "eval_rhs t vs NowCall = Some (Stamp t)"

text \<open>\<open>WHERE w = $n\<close>: a comparison with a null parameter selects nothing.\<close>

definition matches :: "param list \<Rightarrow> column \<Rightarrow> nat \<Rightarrow> row \<Rightarrow> bool" where
  "matches vs w n r =
     (1 \<le> n \<and> n \<le> length vs \<and> vs ! (n - 1) \<noteq> Raw JNull \<and> vs ! (n - 1) \<noteq> Raw JUndef
      \<and> get_col w r = Val (vs ! (n - 1)))"

definition project :: "column list \<Rightarrow> row \<Rightarrow> (column \<times> cell) list" where
  "project cs r = map (\<lambda>c. (c, get_col c r)) cs"

fun eval_assignments ::
  "nat \<Rightarrow> param list \<Rightarrow> (column \<times> rhs) list \<Rightarrow> (column \<times> cell) list option" where
  "eval_assignments t vs [] = Some []"
| "eval_assignments t vs ((c, e) # as) =
     (case eval_rhs t vs e of
        None \<Rightarrow> None
      | Some v \<Rightarrow>
          (case eval_assignments t vs as of
             None \<Rightarrow> None
           | Some cvs \<Rightarrow> Some ((c, v) # cvs)))"

fun write_all :: "(column \<times> cell) list \<Rightarrow> row \<Rightarrow> row" where
  "write_all [] r = r"
| "write_all ((c, v) # cvs) r = write_all cvs (set_col c v r)"

definition param_error :: string where
  "param_error = ''bind message does not supply the parameters of the statement''"

text \<open>
  One statement against the table \<open>app\<close> at time \<open>t\<close>: the result the driver
  hands back and the table afterwards, or the message of the error raised.
\<close>

fun exec_query :: "nat \<Rightarrow> query \<Rightarrow> param list \<Rightarrow> row list \<Rightarrow> string + (qresult \<times> row list)" where
  "exec_query t (Select c w n) vs tbl =
     (if 1 \<le> n \<and> n \<le> length vs then
        (let hit = filter (matches vs w n) tbl
         in Inr (\<lparr>rowCount = length hit, rows = map (project [c]) hit\<rparr>, tbl))
      else Inl param_error)"
| "exec_query t (Update as w n ret) vs tbl =
     (if 1 \<le> n \<and> n \<le> length vs then
        (case eval_assignments t vs as of
           None \<Rightarrow> Inl param_error
         | Some cvs \<Rightarrow>
             (let hit = filter (matches vs w n) tbl
              in Inr (\<lparr>rowCount = length hit,
                       rows = map (\<lambda>r. project ret (write_all cvs r)) hit\<rparr>,
                      map (\<lambda>r. if matches vs w n r then write_all cvs r else r) tbl)))
      else Inl param_error)"
| "exec_query t (Insert cs es ret) vs tbl =
     (if length cs = length es then
        (case eval_assignments t vs (zip cs es) of
           None \<Rightarrow> Inl param_error
         | Some cvs \<Rightarrow>
             (let r = write_all cvs null_row
              in Inr (\<lparr>rowCount = 1, rows = [project ret r]\<rparr>, tbl @ [r])))
      else Inl param_error)"

section \<open>The world outside the handler\<close>

text \<open>
  Every connection string names its own store. The trace records each call on a
  client (\<open>connect\<close>, \<open>query\<close>, \<open>end\<close>); the fault script says, call by call,
  whether the call throws and with which message (an exhausted script means
  no fault).
\<close>

datatype event = Connect string | Query string query "param list" | End string

record world =
  stores :: "string \<Rightarrow> row list"
  clock :: nat
  faults :: "string option list"
  trace :: "event list"

definition next_fault :: "world \<Rightarrow> string option" where
  "next_fault w = (case faults w of [] \<Rightarrow> None | f # fs \<Rightarrow> f)"

definition called :: "event \<Rightarrow> world \<Rightarrow> world" where
  "called ev w = w\<lparr>faults := tl (faults w), trace := trace w @ [ev]\<rparr>"

definition client_connect :: "string \<Rightarrow> world \<Rightarrow> (string + unit) \<times> world" where
  "client_connect c w =
     (case next_fault w of
        Some msg \<Rightarrow> (Inl msg, called (Connect c) w)
      | None \<Rightarrow> (Inr (), called (Connect c) w))"

definition client_end :: "string \<Rightarrow> world \<Rightarrow> (string + unit) \<times> world" where
  "client_end c w =
     (case next_fault w of
        Some msg \<Rightarrow> (Inl msg, called (End c) w)
      | None \<Rightarrow> (Inr (), called (End c) w))"

definition client_query ::
  "string \<Rightarrow> query \<Rightarrow> param list \<Rightarrow> world \<Rightarrow> (string + qresult) \<times> world" where
  "client_query c q vs w =
     (case next_fault w of
        Some msg \<Rightarrow> (Inl msg, called (Query c q vs) w)
      | None \<Rightarrow>
          (case exec_query (clock w) q vs (stores w c) of
             Inl msg \<Rightarrow> (Inl msg, called (Query c q vs) w)
           | Inr (res, tbl) \<Rightarrow>
               (Inr res,
                called (Query c q vs) (w\<lparr>stores := (stores w)(c := tbl), clock := Suc (clock w)\<rparr>))))"

fun is_connect :: "event \<Rightarrow> bool" where
  "is_connect (Connect c) = True"
| "is_connect ev = False"

fun is_end :: "event \<Rightarrow> bool" where
  "is_end (End c) = True"
| "is_end ev = False"

definition acquired :: "world \<Rightarrow> nat" where
  "acquired w = length (filter is_connect (trace w))"

definition released :: "world \<Rightarrow> nat" where
  "released w = length (filter is_end (trace w))"

section \<open>Requests and responses\<close>

text \<open>
  A request as the handler reads it: method, URL, and what \<open>JSON.parse\<close> makes of
  the body (\<open>None\<close> when it throws).
\<close>

record request =
  req_method :: string
  url :: string
  parsed :: "jsval option"

text \<open>The variables of the destructuring of the body.\<close>

record descriptor =
  env :: jsval
  appId :: jsval
  appName :: jsval
  appVersion :: jsval
  appCode :: jsval
  hasTriggers :: jsval
  hasActions :: jsval
  gitSha :: jsval
  tags :: jsval

text \<open>
  What is written to the response: the plain text of the 404, the failure object
  \<open>{success: false, error}\<close>, or one of the success objects
  \<open>{success: true, action: "updated", environment, appId, updatedAt}\<close>,
  \<open>{success: true, action: "created", environment, appId, createdAt}\<close> and the
  update-only service's \<open>{success: true, environment, appId, updatedAt}\<close>
  (a field read from a returned row is \<open>None\<close> when the row does not have it).
\<close>

datatype payload =
    Plain string
  | ErrorJson string
  | UpdatedJson jsval "cell option" "cell option"
  | CreatedJson jsval "cell option" "cell option"
  | PublishedJson jsval "cell option" "cell option"

datatype response = Response nat payload

text \<open>The environment variables of the process.\<close>

type_synonym config = "string \<Rightarrow> string option"

definition env_var :: "config \<Rightarrow> string \<Rightarrow> jsval" where
  "env_var cfg k = (case cfg k of None \<Rightarrow> JUndef | Some s \<Rightarrow> JStr s)"

definition getDbUrl :: "config \<Rightarrow> jsval \<Rightarrow> jsval" where
  "getDbUrl cfg e =
     (if e = JStr ''prestaging'' then env_var cfg ''PRESTAGING_DB_URL''
      else if e = JStr ''staging'' then env_var cfg ''STAGING_DB_URL''
      else if e = JStr ''production'' then env_var cfg ''PRODUCTION_DB_URL''
      else JNull)"

definition readBody :: "request \<Rightarrow> string + jsval" where
  "readBody req = (case parsed req of None \<Rightarrow> Inl ''Invalid JSON'' | Some v \<Rightarrow> Inr v)"

definition destructure :: "jsval \<Rightarrow> string + descriptor" where
  "destructure body =
     (if body = JNull
      then Inl ''Cannot destructure property 'env' of 'body' as it is null.''
      else if body = JUndef
      then Inl ''Cannot destructure property 'env' of 'body' as it is undefined.''
      else Inr \<lparr>env = get_prop body ''env'', appId = get_prop body ''appId'',
                appName = get_prop body ''appName'', appVersion = get_prop body ''appVersion'',
                appCode = get_prop body ''appCode'', hasTriggers = get_prop body ''hasTriggers'',
                hasActions = get_prop body ''hasActions'', gitSha = get_prop body ''gitSha'',
                tags = get_prop body ''tags''\<rparr>)"

text \<open>The connection string of \<open>new Client({ connectionString: databaseUrl })\<close>.\<close>

fun connectionString :: "jsval \<Rightarrow> string" where
  "connectionString (JStr s) = s"
| "connectionString v = []"

definition bad_request :: "string \<Rightarrow> response" where
  "bad_request msg = Response 400 (ErrorJson msg)"

text \<open>The \<open>catch\<close> block: \<open>error.message || "Internal server error"\<close> under status 500.\<close>

definition internal_error :: "string \<Rightarrow> response" where
  "internal_error msg =
     Response 500 (ErrorJson (if msg = [] then ''Internal server error'' else msg))"

section \<open>The upsert service (push-code-to-db.js)\<close>

text \<open>
  The update branch builds \<open>updates\<close> and \<open>values\<close> side by side, \<open>idx\<close>
  counting the placeholders handed out so far.
\<close>

record builder =
  updates :: "(column \<times> rhs) list"
  vals :: "param list"
  idx :: nat

text \<open>\<open>updates.push(`col = $${idx++}`); values.push(v)\<close>.\<close>

definition push_update :: "column \<Rightarrow> (nat \<Rightarrow> rhs) \<Rightarrow> param \<Rightarrow> builder \<Rightarrow> builder" where
  "push_update c ph v b =
     b\<lparr>updates := updates b @ [(c, ph (idx b))], vals := vals b @ [v], idx := Suc (idx b)\<rparr>"

definition build_update :: "descriptor \<Rightarrow> builder" where
  "build_update d =
     (let b0 = \<lparr>updates = [], vals = [], idx = 1\<rparr>;
          b1 = (if strict_neq (appName d) JUndef
                then push_update App_name Dollar (Raw (appName d)) b0 else b0);
          b2 = (if strict_neq (appVersion d) JUndef
                then push_update App_version Dollar (Raw (appVersion d)) b1 else b1);
          b3 = (if strict_neq (appCode d) JUndef
                then push_update App_code Dollar (Raw (appCode d)) b2 else b2);
          b4 = (if strict_neq (hasTriggers d) JUndef
                then push_update Has_triggers Dollar (Raw (hasTriggers d)) b3 else b3);
          b5 = (if strict_neq (hasActions d) JUndef
                then push_update Has_actions Dollar (Raw (hasActions d)) b4 else b4);
          b6 = (if strict_neq (gitSha d) JUndef
                then push_update Git_sha Dollar (Raw (gitSha d)) b5 else b5);
          b7 = (if strict_neq (tags d) JUndef
                then push_update Tags DollarJsonb (JsonText (tags d)) b6 else b6)
      in b7\<lparr>updates := updates b7 @ [(Updated_at, CurrentTimestamp)]\<rparr>)"

text \<open>
  The outcome of the \<open>try\<close> block: the response written, or the message of the error
  thrown; with it the variable \<open>client\<close> (\<open>None\<close> while unassigned) and the world.
\<close>

type_synonym outcome = "(string + response) \<times> string option \<times> world"

text \<open>The message of the error \<open>result.rows[0].app_id\<close> throws when no row came back.\<close>

definition no_row_error :: string where
  "no_row_error = ''Cannot read properties of undefined (reading 'app_id')''"

definition update_branch :: "descriptor \<Rightarrow> string \<Rightarrow> world \<Rightarrow> outcome" where
  "update_branch d client w =
     (let b = build_update d in
      if length (updates b) = 1 then (Inl ''No fields provided to update'', Some client, w)
      else
        (case client_query client (Update (updates b) App_id (idx b) [App_id, Updated_at])
                (vals b @ [Raw (appId d)]) w of
           (Inl msg, w') \<Rightarrow> (Inl msg, Some client, w')
         | (Inr result, w') \<Rightarrow>
             (case rows result of
                [] \<Rightarrow> (Inl no_row_error, Some client, w')
              | r # rs \<Rightarrow>
                  (Inr (Response 200
                     (UpdatedJson (env d) (map_of r App_id) (map_of r Updated_at))),
                   Some client, w'))))"

definition insertValues :: "descriptor \<Rightarrow> param list" where
  "insertValues d =
     [Raw (appName d), Raw (appId d), Raw (appVersion d), Raw (appCode d),
      Raw (hasTriggers d), Raw (hasActions d), Raw (nullish_or (gitSha d) JNull),
      (if truthy (tags d) then JsonText (tags d) else Raw (JArr []))]"

definition insertQuery :: query where
  "insertQuery =
     Insert [App_name, App_id, App_version, App_code, Has_triggers, Has_actions, Git_sha,
             Tags, Created_at, Updated_at]
            [Dollar 1, Dollar 2, Dollar 3, Dollar 4, Dollar 5, Dollar 6, Dollar 7, Dollar 8,
             CurrentTimestamp, CurrentTimestamp]
            [App_id, Created_at]"

definition insert_branch :: "descriptor \<Rightarrow> string \<Rightarrow> world \<Rightarrow> outcome" where
  "insert_branch d client w =
     (if falsy (appName d) \<or> falsy (appVersion d) \<or> falsy (appCode d)
         \<or> falsy (hasTriggers d) \<or> falsy (hasActions d)
      then (Inr (bad_request
              ''appName, appVersion and appCode are required when creating a new app''),
            Some client, w)
      else
        (case client_query client insertQuery (insertValues d) w of
           (Inl msg, w') \<Rightarrow> (Inl msg, Some client, w')
         | (Inr insertResult, w') \<Rightarrow>
             (case rows insertResult of
                [] \<Rightarrow> (Inl no_row_error, Some client, w')
              | r # rs \<Rightarrow>
                  (Inr (Response 200
                     (CreatedJson (env d) (map_of r App_id) (map_of r Created_at))),
                   Some client, w'))))"

definition upsert_publish :: "config \<Rightarrow> descriptor \<Rightarrow> world \<Rightarrow> outcome" where
  "upsert_publish cfg d w =
     (if falsy (env d) \<or> falsy (appId d)
      then (Inr (bad_request ''Missing required fields: env, appId''), None, w)
      else
        (let databaseUrl = getDbUrl cfg (env d) in
         if falsy databaseUrl then (Inr (bad_request ''Invalid environment''), None, w)
         else
           (let client = connectionString databaseUrl in
            case client_connect client w of
              (Inl msg, w1) \<Rightarrow> (Inl msg, Some client, w1)
            | (Inr u, w1) \<Rightarrow>
                (case client_query client (Select App_id App_id 1) [Raw (appId d)] w1 of
                   (Inl msg, w2) \<Rightarrow> (Inl msg, Some client, w2)
                 | (Inr existsResult, w2) \<Rightarrow>
                     if rowCount existsResult > 0 then update_branch d client w2
                     else insert_branch d client w2))))"

definition upsert_try :: "config \<Rightarrow> request \<Rightarrow> world \<Rightarrow> outcome" where
  "upsert_try cfg req w =
     (case readBody req of
        Inl msg \<Rightarrow> (Inl msg, None, w)
      | Inr body \<Rightarrow>
          (case destructure body of
             Inl msg \<Rightarrow> (Inl msg, None, w)
           | Inr d \<Rightarrow> upsert_publish cfg d w))"

text \<open>
  The handler: the response sent, the rejection the handler's promise ends with
  when \<open>client.end()\<close> throws in the \<open>finally\<close> block, and the world afterwards.
\<close>

definition upsert_handler :: "config \<Rightarrow> request \<Rightarrow> world \<Rightarrow> response \<times> string option \<times> world" where
  "upsert_handler cfg req w =
     (if strict_neq (req_method req) ''POST'' \<or> strict_neq (url req) ''/publish''
      then (Response 404 (Plain ''Not found''), None, w)
      else
        (case upsert_try cfg req w of
           (out, client, w1) \<Rightarrow>
             (let res = (case out of Inr r \<Rightarrow> r | Inl msg \<Rightarrow> internal_error msg) in
              case client of
                None \<Rightarrow> (res, None, w1)
              | Some c \<Rightarrow>
                  (case client_end c w1 of
                     (Inl msg, w2) \<Rightarrow> (res, Some msg, w2)
                   | (Inr u, w2) \<Rightarrow> (res, None, w2)))))"

section \<open>The update-only service (part_000)\<close>

definition strict_query :: query where
  "strict_query = Update [(App_code, Dollar 1), (Updated_at, NowCall)] App_id 2 [App_id, Updated_at]"

text \<open>
  Here \<open>client\<close> is local to the \<open>try\<close> block and there is no \<open>finally\<close>:
  \<open>client.end()\<close> is the statement after the query.
\<close>

definition strict_publish :: "config \<Rightarrow> descriptor \<Rightarrow> world \<Rightarrow> (string + response) \<times> world" where
  "strict_publish cfg d w =
     (if falsy (env d) \<or> falsy (appId d) \<or> falsy (appCode d)
      then (Inr (bad_request ''Missing required fields: env, appId, appCode''), w)
      else
        (let databaseUrl = getDbUrl cfg (env d) in
         if falsy databaseUrl then (Inr (bad_request ''Invalid environment''), w)
         else
           (let client = connectionString databaseUrl in
            case client_connect client w of
              (Inl msg, w1) \<Rightarrow> (Inl msg, w1)
            | (Inr u, w1) \<Rightarrow>
                (case client_query client strict_query [Raw (appCode d), Raw (appId d)] w1 of
                   (Inl msg, w2) \<Rightarrow> (Inl msg, w2)
                 | (Inr result, w2) \<Rightarrow>
                     (case client_end client w2 of
                        (Inl msg, w3) \<Rightarrow> (Inl msg, w3)
                      | (Inr u', w3) \<Rightarrow>
                          if rowCount result = 0
                          then (Inr (Response 404 (ErrorJson ''App not found'')), w3)
                          else
                            (case rows result of
                               [] \<Rightarrow> (Inl no_row_error, w3)
                             | r # rs \<Rightarrow>
                                 (Inr (Response 200
                                    (PublishedJson (env d) (map_of r App_id)
                                       (map_of r Updated_at))),
                                  w3)))))))"

definition strict_handler :: "config \<Rightarrow> request \<Rightarrow> world \<Rightarrow> response \<times> world" where
  "strict_handler cfg req w =
     (if strict_neq (req_method req) ''POST'' \<or> strict_neq (url req) ''/publish''
      then (Response 404 (Plain ''Not found''), w)
      else
        (case (case readBody req of
                 Inl msg \<Rightarrow> (Inl msg, w)
               | Inr body \<Rightarrow>
                   (case destructure body of
                      Inl msg \<Rightarrow> (Inl msg, w)
                    | Inr d \<Rightarrow> strict_publish cfg d w)) of
           (Inr r, w1) \<Rightarrow> (r, w1)
         | (Inl msg, w1) \<Rightarrow> (internal_error msg, w1)))"

section \<open>Vocabulary of the properties\<close>

text \<open>
  A request that reaches the publish logic carrying the descriptor \<open>d\<close>: a
  \<open>POST /publish\<close> whose body parses to a value that destructures to \<open>d\<close>.
\<close>

definition carries :: "request \<Rightarrow> descriptor \<Rightarrow> bool" where
  "carries req d =
     (req_method req = ''POST'' \<and> url req = ''/publish'' \<and>
      (case parsed req of None \<Rightarrow> False | Some body \<Rightarrow> destructure body = Inr d))"

text \<open>The next \<open>n\<close> calls on a client do not throw.\<close>

fun all_ok :: "nat \<Rightarrow> string option list \<Rightarrow> bool" where
  "all_ok 0 fs = True"
| "all_ok (Suc n) [] = True"
| "all_ok (Suc n) (f # fs) = (f = None \<and> all_ok n fs)"

definition fault_free :: "nat \<Rightarrow> world \<Rightarrow> bool" where
  "fault_free n w = all_ok n (faults w)"

text \<open>The rows of a table stored under the application id \<open>a\<close>.\<close>

definition records_of :: "jsval \<Rightarrow> row list \<Rightarrow> row list" where
  "records_of a tbl = filter (\<lambda>r. app_id r = Val (Raw a)) tbl"

text \<open>The events a run added to the trace.\<close>

definition added :: "world \<Rightarrow> world \<Rightarrow> event list" where
  "added w w' = drop (length (trace w)) (trace w')"

fun is_insert :: "event \<Rightarrow> bool" where
  "is_insert (Query c (Insert cs es ret) vs) = True"
| "is_insert ev = False"

text \<open>
  The seven optional fields in the order the update branch visits them, each with
  its column, whether its placeholder carries the \<open>jsonb\<close> cast, and its value.
\<close>

definition optional_fields :: "descriptor \<Rightarrow> (column \<times> bool \<times> jsval) list" where
  "optional_fields d =
     [(App_name, False, appName d), (App_version, False, appVersion d),
      (App_code, False, appCode d), (Has_triggers, False, hasTriggers d),
      (Has_actions, False, hasActions d), (Git_sha, False, gitSha d), (Tags, True, tags d)]"

definition present_fields :: "descriptor \<Rightarrow> (column \<times> bool \<times> jsval) list" where
  "present_fields d = filter (\<lambda>(c, j, v). v \<noteq> JUndef) (optional_fields d)"

fun assignment_of :: "nat \<times> column \<times> bool \<times> jsval \<Rightarrow> column \<times> rhs" where
  "assignment_of (i, c, j, v) = (c, if j then DollarJsonb i else Dollar i)"

fun value_of :: "column \<times> bool \<times> jsval \<Rightarrow> param" where
  "value_of (c, j, v) = (if j then JsonText v else Raw v)"

text \<open>One step of the update branch, as a function of the field visited.\<close>

definition push_field :: "builder \<Rightarrow> column \<times> bool \<times> jsval \<Rightarrow> builder" where
  "push_field b f =
     (if snd (snd f) \<noteq> JUndef
      then push_update (fst f) (if fst (snd f) then DollarJsonb else Dollar) (value_of f) b
      else b)"

subsection \<open>Concrete requests and worlds\<close>

text \<open>
  A configuration that sets only \<open>STAGING_DB_URL\<close>, a world whose staging store
  holds the given rows, and request bodies for the scenarios below.
\<close>

definition staging_url :: string where
  "staging_url = ''postgres://staging/apps''"

definition staging_config :: config where
  "staging_config = (\<lambda>k. if k = ''STAGING_DB_URL'' then Some staging_url else None)"

definition post :: "jsval \<Rightarrow> request" where
  "post body = \<lparr>req_method = ''POST'', url = ''/publish'', parsed = Some body\<rparr>"

definition world_with :: "row list \<Rightarrow> string option list \<Rightarrow> world" where
  "world_with tbl fs =
     \<lparr>stores = (\<lambda>u. if u = staging_url then tbl else []), clock = 0, faults = fs, trace = []\<rparr>"

text \<open>The descriptor a body destructures to.\<close>

definition describe :: "jsval \<Rightarrow> descriptor" where
  "describe body = (case destructure body of Inr d \<Rightarrow> d | Inl msg \<Rightarrow>
     \<lparr>env = JUndef, appId = JUndef, appName = JUndef, appVersion = JUndef, appCode = JUndef,
      hasTriggers = JUndef, hasActions = JUndef, gitSha = JUndef, tags = JUndef\<rparr>)"

definition svc_row :: row where
  "svc_row =
     \<lparr>app_name = Val (Raw (JStr ''svc'')), app_id = Val (Raw (JStr ''a1'')),
      app_version = Val (Raw (JStr ''1.0'')), app_code = Val (Raw (JStr ''code'')),
      has_triggers = Val (Raw (JBool True)), has_actions = Val (Raw (JBool True)),
      git_sha = Val (Raw JNull), tags = Val (Raw (JArr [])),
      created_at = Stamp 1, updated_at = Stamp 1\<rparr>"

definition other_row :: row where
  "other_row = svc_row\<lparr>app_id := Val (Raw (JStr ''b2'')), app_name := Val (Raw (JStr ''other''))\<rparr>"

definition flagless_body :: jsval where
  "flagless_body =
     JObj [(''env'', JStr ''staging''), (''appId'', JStr ''a1''), (''appName'', JStr ''svc''),
           (''appVersion'', JStr ''1.0''), (''appCode'', JStr ''code''),
           (''hasTriggers'', JBool True), (''hasActions'', JBool False)]"

definition full_body :: jsval where
  "full_body =
     JObj [(''env'', JStr ''staging''), (''appId'', JStr ''a1''), (''appName'', JStr ''svc''),
           (''appVersion'', JStr ''1.0''), (''appCode'', JStr ''code''),
           (''hasTriggers'', JBool True), (''hasActions'', JBool True)]"

definition empty_tags_body :: jsval where
  "empty_tags_body =
     JObj [(''env'', JStr ''staging''), (''appId'', JStr ''a1''), (''appName'', JStr ''svc''),
           (''appVersion'', JStr ''1.0''), (''appCode'', JStr ''code''),
           (''hasTriggers'', JBool True), (''hasActions'', JBool True), (''tags'', JArr [])]"

definition bare_body :: jsval where
  "bare_body = JObj [(''env'', JStr ''staging''), (''appId'', JStr ''a1'')]"

definition sha_body :: jsval where
  "sha_body = JObj [(''env'', JStr ''staging''), (''appId'', JStr ''a1''), (''gitSha'', JStr ''9fceb02'')]"

definition code_body :: jsval where
  "code_body = JObj [(''env'', JStr ''staging''), (''appId'', JStr ''a1''), (''appCode'', JStr ''code v2'')]"

definition empty_env_body :: jsval where
  "empty_env_body = JObj [(''env'', JStr []), (''appId'', JStr ''a1''), (''appCode'', JStr ''code'')]"

definition qa_env_body :: jsval where
  "qa_env_body = JObj [(''env'', JStr ''qa''), (''appId'', JStr ''a1''), (''appCode'', JStr ''code'')]"

definition production_body :: jsval where
  "production_body = JObj [(''env'', JStr ''production''), (''appId'', JStr ''a1''), (''appCode'', JStr ''code'')]"

definition retag_body :: jsval where
  "retag_body = JObj [(''env'', JStr ''staging''), (''appId'', JStr ''a1''),
     (''appVersion'', JStr ''1.1''), (''tags'', JArr [JStr ''beta''])]"

lemmas fixture_defs = describe_def destructure_def carries_def post_def world_with_def
  staging_config_def getDbUrl_def env_var_def truthy_def fault_free_def records_of_def
  svc_row_def other_row_def

section \<open>From a request to the publish logic\<close>

lemma upsert_try_carries:
  "carries req d \<Longrightarrow> upsert_try cfg req w = upsert_publish cfg d w"
  by (auto simp: carries_def upsert_try_def readBody_def split: option.splits)

lemma upsert_handler_carries:
  "carries req d \<Longrightarrow>
   upsert_handler cfg req w =
     (case upsert_publish cfg d w of
        (out, client, w1) \<Rightarrow>
          (let res = (case out of Inr r \<Rightarrow> r | Inl msg \<Rightarrow> internal_error msg) in
           case client of
             None \<Rightarrow> (res, None, w1)
           | Some c \<Rightarrow>
               (case client_end c w1 of
                  (Inl msg, w2) \<Rightarrow> (res, Some msg, w2)
                | (Inr u, w2) \<Rightarrow> (res, None, w2))))"
  by (simp add: upsert_handler_def upsert_try_carries strict_neq_def) (simp add: carries_def)

lemma strict_handler_carries:
  "carries req d \<Longrightarrow>
   strict_handler cfg req w =
     (case strict_publish cfg d w of
        (Inr r, w1) \<Rightarrow> (r, w1)
      | (Inl msg, w1) \<Rightarrow> (internal_error msg, w1))"
  by (auto simp: strict_handler_def carries_def readBody_def strict_neq_def split: option.splits)

lemma invalid_environment_upsert:
  "carries req d \<Longrightarrow> falsy (getDbUrl cfg (env d)) \<Longrightarrow>
   upsert_handler cfg req w =
     (if falsy (env d) \<or> falsy (appId d)
      then (Response 400 (ErrorJson ''Missing required fields: env, appId''), None, w)
      else (Response 400 (ErrorJson ''Invalid environment''), None, w))"
  by (simp add: upsert_handler_carries upsert_publish_def bad_request_def)

lemma invalid_environment_strict:
  "carries req d \<Longrightarrow> falsy (getDbUrl cfg (env d)) \<Longrightarrow>
   strict_handler cfg req w =
     (if falsy (env d) \<or> falsy (appId d) \<or> falsy (appCode d)
      then (Response 400 (ErrorJson ''Missing required fields: env, appId, appCode''), w)
      else (Response 400 (ErrorJson ''Invalid environment''), w))"
  by (simp add: strict_handler_carries strict_publish_def bad_request_def)

lemma getDbUrl_unknown:
  "e \<noteq> JStr ''prestaging'' \<Longrightarrow> e \<noteq> JStr ''staging'' \<Longrightarrow> e \<noteq> JStr ''production'' \<Longrightarrow>
   getDbUrl cfg e = JNull"
  by (simp add: getDbUrl_def)

section \<open>Required fields and environment routing\<close>

text \<open>
  C10. Both services test the required fields for truthiness, not presence: when
  \<open>env\<close> or \<open>appId\<close> (or, in the update-only service, \<open>appCode\<close>) is the empty
  string or any other falsy value, the request is answered with status 400 and the
  missing-required-fields message, and the world is left as it was: no call on any
  datastore client is made. An absent field is the falsy value \<open>undefined\<close>, so
  the answer is the one an absent field gets.
\<close>

theorem missing_required_fields_rejected:
  "carries req d \<Longrightarrow>
   (falsy (env d) \<or> falsy (appId d) \<longrightarrow>
      upsert_handler cfg req w =
        (Response 400 (ErrorJson ''Missing required fields: env, appId''), None, w)) \<and>
   (falsy (env d) \<or> falsy (appId d) \<or> falsy (appCode d) \<longrightarrow>
      strict_handler cfg req w =
        (Response 400 (ErrorJson ''Missing required fields: env, appId, appCode''), w))"
  by (simp add: upsert_handler_carries strict_handler_carries upsert_publish_def
      strict_publish_def bad_request_def)

theorem missing_required_fields_rejected_witness:
  "carries (post empty_env_body) (describe empty_env_body) \<and>
   falsy (env (describe empty_env_body)) \<and>
   upsert_handler staging_config (post empty_env_body) (world_with [svc_row] []) =
     (Response 400 (ErrorJson ''Missing required fields: env, appId''), None, world_with [svc_row] []) \<and>
   strict_handler staging_config (post empty_env_body) (world_with [svc_row] []) =
     (Response 400 (ErrorJson ''Missing required fields: env, appId, appCode''), world_with [svc_row] [])"
proof -
  have c: "carries (post empty_env_body) (describe empty_env_body)"
    by (simp add: carries_def post_def describe_def destructure_def empty_env_body_def)
  have f: "falsy (env (describe empty_env_body))"
    by (simp add: describe_def destructure_def empty_env_body_def)
  from missing_required_fields_rejected [OF c, of staging_config "world_with [svc_row] []"] f c
  show ?thesis by simp
qed

text \<open>
  C9. When \<open>env\<close> is one of the three recognised names and its \<open>*_DB_URL\<close>
  variable is unset, \<open>getDbUrl\<close> returns \<open>undefined\<close> and a request with the other
  required fields is answered with status 400 and \<open>Invalid environment\<close>, the world
  unchanged. The answer and the world are the same as for the request in which only
  \<open>env\<close> is replaced by any unrecognised truthy value.
\<close>

theorem unset_url_is_invalid_environment:
  assumes c: "carries req d"
    and unset: "(env d = JStr ''prestaging'' \<and> cfg ''PRESTAGING_DB_URL'' = None) \<or>
                (env d = JStr ''staging'' \<and> cfg ''STAGING_DB_URL'' = None) \<or>
                (env d = JStr ''production'' \<and> cfg ''PRODUCTION_DB_URL'' = None)"
  shows "getDbUrl cfg (env d) = JUndef \<and>
         (truthy (appId d) \<longrightarrow>
            upsert_handler cfg req w =
              (Response 400 (ErrorJson ''Invalid environment''), None, w)) \<and>
         (truthy (appId d) \<and> truthy (appCode d) \<longrightarrow>
            strict_handler cfg req w = (Response 400 (ErrorJson ''Invalid environment''), w)) \<and>
         (\<forall>req' e'. carries req' (d\<lparr>env := e'\<rparr>) \<and> truthy e' \<and>
              e' \<notin> {JStr ''prestaging'', JStr ''staging'', JStr ''production''} \<longrightarrow>
            upsert_handler cfg req' w = upsert_handler cfg req w \<and>
            strict_handler cfg req' w = strict_handler cfg req w)"
proof -
  from unset have u: "getDbUrl cfg (env d) = JUndef"
    by (auto simp: getDbUrl_def env_var_def)
  then have f: "falsy (getDbUrl cfg (env d))" by simp
  from unset have t: "\<not> falsy (env d)" by auto
  have same: "upsert_handler cfg req' w = upsert_handler cfg req w \<and>
        strict_handler cfg req' w = strict_handler cfg req w"
    if c': "carries req' (d\<lparr>env := e'\<rparr>)" and te: "truthy e'"
      and ne: "e' \<notin> {JStr ''prestaging'', JStr ''staging'', JStr ''production''}" for req' e'
  proof -
    from ne have "getDbUrl cfg e' = JNull" by (simp add: getDbUrl_unknown)
    then have f': "falsy (getDbUrl cfg (env (d\<lparr>env := e'\<rparr>)))" by simp
    show ?thesis
      using invalid_environment_upsert [OF c' f', of w] invalid_environment_upsert [OF c f, of w]
        invalid_environment_strict [OF c' f', of w] invalid_environment_strict [OF c f, of w] t te
      by (simp add: truthy_def)
  qed
  have up: "truthy (appId d) \<longrightarrow>
      upsert_handler cfg req w = (Response 400 (ErrorJson ''Invalid environment''), None, w)"
    using t invalid_environment_upsert [OF c f, of w] by (simp add: truthy_def)
  have st: "truthy (appId d) \<and> truthy (appCode d) \<longrightarrow>
      strict_handler cfg req w = (Response 400 (ErrorJson ''Invalid environment''), w)"
    using t invalid_environment_strict [OF c f, of w] by (simp add: truthy_def)
  from u up st same show ?thesis by blast
qed

theorem unset_url_is_invalid_environment_witness:
  "carries (post production_body) (describe production_body) \<and>
   env (describe production_body) = JStr ''production'' \<and>
   staging_config ''PRODUCTION_DB_URL'' = None \<and>
   truthy (appId (describe production_body)) \<and>
   truthy (appCode (describe production_body)) \<and>
   getDbUrl staging_config (env (describe production_body)) = JUndef \<and>
   upsert_handler staging_config (post production_body) (world_with [svc_row] []) =
     (Response 400 (ErrorJson ''Invalid environment''), None, world_with [svc_row] []) \<and>
   strict_handler staging_config (post production_body) (world_with [svc_row] []) =
     (Response 400 (ErrorJson ''Invalid environment''), world_with [svc_row] []) \<and>
   carries (post qa_env_body) ((describe production_body)\<lparr>env := JStr ''qa''\<rparr>) \<and>
   upsert_handler staging_config (post qa_env_body) (world_with [svc_row] []) =
     upsert_handler staging_config (post production_body) (world_with [svc_row] [])"
proof -
  have c: "carries (post production_body) (describe production_body)"
    by (simp add: carries_def post_def describe_def destructure_def production_body_def)
  have e: "env (describe production_body) = JStr ''production''"
    by (simp add: describe_def destructure_def production_body_def)
  have v: "staging_config ''PRODUCTION_DB_URL'' = None"
    by (simp add: staging_config_def)
  have a: "truthy (appId (describe production_body))" "truthy (appCode (describe production_body))"
    by (simp_all add: truthy_def describe_def destructure_def production_body_def)
  have q: "carries (post qa_env_body) ((describe production_body)\<lparr>env := JStr ''qa''\<rparr>)"
    by (simp add: carries_def post_def describe_def destructure_def production_body_def
        qa_env_body_def)
  have tq: "truthy (JStr ''qa'')" by (simp add: truthy_def)
  have nq: "JStr ''qa'' \<notin> {JStr ''prestaging'', JStr ''staging'', JStr ''production''}"
    by simp
  from e v have h:
    "(env (describe production_body) = JStr ''prestaging'' \<and>
        staging_config ''PRESTAGING_DB_URL'' = None) \<or>
     (env (describe production_body) = JStr ''staging'' \<and>
        staging_config ''STAGING_DB_URL'' = None) \<or>
     (env (describe production_body) = JStr ''production'' \<and>
        staging_config ''PRODUCTION_DB_URL'' = None)"
    by blast
  from unset_url_is_invalid_environment [OF c h, of "world_with [svc_row] []"]
    c e v a q tq nq
  show ?thesis by blast
qed

text \<open>
  C5, as stated, fails for an empty \<open>env\<close>: the required-fields check comes first
  and answers with its own message.
\<close>

theorem empty_env_reports_missing_fields:
  "env (describe empty_env_body) = JStr [] \<and>
   JStr [] \<notin> {JStr ''prestaging'', JStr ''staging'', JStr ''production''} \<and>
   fst (upsert_handler staging_config (post empty_env_body) (world_with [] [])) =
     Response 400 (ErrorJson ''Missing required fields: env, appId'') \<and>
   fst (upsert_handler staging_config (post empty_env_body) (world_with [] [])) \<noteq>
     Response 400 (ErrorJson ''Invalid environment'')"
  by (simp add: upsert_handler_def upsert_try_def upsert_publish_def readBody_def destructure_def
      describe_def post_def empty_env_body_def strict_neq_def bad_request_def)

text \<open>
  C5, amended. For every \<open>env\<close> outside the three recognised names \<open>getDbUrl\<close>
  returns \<open>null\<close>. A request with such an \<open>env\<close> that is truthy, and with the other
  required fields truthy, is answered with status 400 and \<open>Invalid environment\<close>;
  with such an \<open>env\<close> that is falsy (empty or missing) it is answered with status
  400 and the missing-required-fields message. In both cases the world is unchanged.
\<close>

theorem unknown_environment_rejected:
  assumes c: "carries req d"
    and ne: "env d \<notin> {JStr ''prestaging'', JStr ''staging'', JStr ''production''}"
  shows "getDbUrl cfg (env d) = JNull \<and>
         (truthy (env d) \<and> truthy (appId d) \<longrightarrow>
            upsert_handler cfg req w =
              (Response 400 (ErrorJson ''Invalid environment''), None, w)) \<and>
         (truthy (env d) \<and> truthy (appId d) \<and> truthy (appCode d) \<longrightarrow>
            strict_handler cfg req w = (Response 400 (ErrorJson ''Invalid environment''), w)) \<and>
         (falsy (env d) \<longrightarrow>
            upsert_handler cfg req w =
              (Response 400 (ErrorJson ''Missing required fields: env, appId''), None, w) \<and>
            strict_handler cfg req w =
              (Response 400 (ErrorJson ''Missing required fields: env, appId, appCode''), w))"
proof -
  from ne have u: "getDbUrl cfg (env d) = JNull" by (simp add: getDbUrl_unknown)
  then have f: "falsy (getDbUrl cfg (env d))" by simp
  show ?thesis
    using u invalid_environment_upsert [OF c f, of w] invalid_environment_strict [OF c f, of w]
    by (simp add: truthy_def)
qed

theorem unknown_environment_rejected_witness:
  "carries (post qa_env_body) (describe qa_env_body) \<and>
   env (describe qa_env_body) \<notin> {JStr ''prestaging'', JStr ''staging'', JStr ''production''} \<and>
   truthy (env (describe qa_env_body)) \<and> truthy (appId (describe qa_env_body)) \<and>
   truthy (appCode (describe qa_env_body)) \<and>
   getDbUrl staging_config (env (describe qa_env_body)) = JNull \<and>
   upsert_handler staging_config (post qa_env_body) (world_with [svc_row] []) =
     (Response 400 (ErrorJson ''Invalid environment''), None, world_with [svc_row] []) \<and>
   strict_handler staging_config (post qa_env_body) (world_with [svc_row] []) =
     (Response 400 (ErrorJson ''Invalid environment''), world_with [svc_row] []) \<and>
   carries (post empty_env_body) (describe empty_env_body) \<and>
   env (describe empty_env_body) \<notin> {JStr ''prestaging'', JStr ''staging'', JStr ''production''} \<and>
   falsy (env (describe empty_env_body)) \<and>
   getDbUrl staging_config (env (describe empty_env_body)) = JNull \<and>
   upsert_handler staging_config (post empty_env_body) (world_with [svc_row] []) =
     (Response 400 (ErrorJson ''Missing required fields: env, appId''), None,
      world_with [svc_row] []) \<and>
   strict_handler staging_config (post empty_env_body) (world_with [svc_row] []) =
     (Response 400 (ErrorJson ''Missing required fields: env, appId, appCode''),
      world_with [svc_row] [])"
proof -
  have c0: "carries (post empty_env_body) (describe empty_env_body)"
    by (simp add: carries_def post_def describe_def destructure_def empty_env_body_def)
  have e0: "env (describe empty_env_body) \<notin>
      {JStr ''prestaging'', JStr ''staging'', JStr ''production''}"
    by (simp add: describe_def destructure_def empty_env_body_def)
  have f0: "falsy (env (describe empty_env_body))"
    by (simp add: describe_def destructure_def empty_env_body_def)
  have c: "carries (post qa_env_body) (describe qa_env_body)"
    by (simp add: carries_def post_def describe_def destructure_def qa_env_body_def)
  have e: "env (describe qa_env_body) \<notin> {JStr ''prestaging'', JStr ''staging'', JStr ''production''}"
    by (simp add: describe_def destructure_def qa_env_body_def)
  have a: "truthy (env (describe qa_env_body))" "truthy (appId (describe qa_env_body))"
    "truthy (appCode (describe qa_env_body))"
    by (simp_all add: truthy_def describe_def destructure_def qa_env_body_def)
  from unknown_environment_rejected [OF c e, of staging_config "world_with [svc_row] []"]
    unknown_environment_rejected [OF c0 e0, of staging_config "world_with [svc_row] []"]
    c e a c0 e0 f0
  show ?thesis by simp
qed

section \<open>Calls on a client\<close>

lemma all_ok_Nil [simp]: "all_ok n []"
  by (cases n) simp_all

lemma all_ok_less: "all_ok (Suc n) fs \<Longrightarrow> all_ok n fs"
  by (induction n fs rule: all_ok.induct) auto

lemma fault_free_less: "fault_free (Suc n) w \<Longrightarrow> fault_free n w"
  by (simp add: fault_free_def all_ok_less)

lemma fault_free_next: "fault_free (Suc n) w \<Longrightarrow> next_fault w = None"
  by (cases "faults w") (simp_all add: fault_free_def next_fault_def)

lemma fault_free_called: "fault_free (Suc n) w \<Longrightarrow> fault_free n (called ev w)"
  by (cases "faults w") (simp_all add: fault_free_def called_def)

lemma fault_free_stores [simp]:
  "fault_free n (w\<lparr>stores := s, clock := t\<rparr>) = fault_free n w"
  by (simp add: fault_free_def)

lemma next_fault_stores [simp]:
  "next_fault (w\<lparr>stores := s, clock := t\<rparr>) = next_fault w"
  by (simp add: next_fault_def)

lemma stores_called [simp]: "stores (called ev w) = stores w"
  by (simp add: called_def)

lemma clock_called [simp]: "clock (called ev w) = clock w"
  by (simp add: called_def)

lemma trace_called [simp]: "trace (called ev w) = trace w @ [ev]"
  by (simp add: called_def)

lemma client_connect_ok:
  "next_fault w = None \<Longrightarrow> client_connect c w = (Inr (), called (Connect c) w)"
  by (simp add: client_connect_def)

lemma client_end_keeps:
  "client_end c w = (res, w') \<Longrightarrow> stores w' = stores w \<and> clock w' = clock w \<and> trace w' = trace w @ [End c]"
  by (auto simp: client_end_def split: option.splits)

lemma trace_client_query:
  "client_query c q vs w = (res, w') \<Longrightarrow> trace w' = trace w @ [Query c q vs]"
  by (auto simp: client_query_def split: option.splits sum.splits prod.splits)

lemma trace_client_connect:
  "client_connect c w = (res, w') \<Longrightarrow> trace w' = trace w @ [Connect c]"
  by (auto simp: client_connect_def split: option.splits)

lemma matches_app_id:
  "truthy a \<Longrightarrow>
   matches (vs @ [Raw a]) App_id (Suc (length vs)) = (\<lambda>r. app_id r = Val (Raw a))"
  by (rule ext) (auto simp: matches_def truthy_def)

lemma filter_matches_app_id:
  "truthy a \<Longrightarrow> filter (matches (vs @ [Raw a]) App_id (Suc (length vs))) tbl = records_of a tbl"
  by (simp add: records_of_def matches_app_id)

lemma select_exists:
  "truthy a \<Longrightarrow>
   exec_query t (Select App_id App_id (Suc 0)) [Raw a] tbl =
     Inr (\<lparr>rowCount = length (records_of a tbl), rows = map (project [App_id]) (records_of a tbl)\<rparr>, tbl)"
  using filter_matches_app_id [of a "[]" tbl] by (simp add: Let_def)

lemma client_query_select:
  "next_fault w = None \<Longrightarrow> truthy a \<Longrightarrow>
   client_query c (Select App_id App_id (Suc 0)) [Raw a] w =
     (Inr \<lparr>rowCount = length (records_of a (stores w c)),
           rows = map (project [App_id]) (records_of a (stores w c))\<rparr>,
      called (Query c (Select App_id App_id (Suc 0)) [Raw a]) (w\<lparr>clock := Suc (clock w)\<rparr>))"
  by (simp add: client_query_def select_exists del: exec_query.simps)


text \<open>The two calls every upsert publish starts with, when neither throws.\<close>

lemma upsert_publish_reaches_branch:
  assumes "truthy (env d)" "truthy (appId d)" "truthy (getDbUrl cfg (env d))"
    and "fault_free 2 w"
  shows "upsert_publish cfg d w =
     (let u = connectionString (getDbUrl cfg (env d));
          w2 = called (Query u (Select App_id App_id 1) [Raw (appId d)])
                 ((called (Connect u) w)\<lparr>clock := Suc (clock w)\<rparr>)
      in if records_of (appId d) (stores w u) \<noteq> [] then update_branch d u w2
         else insert_branch d u w2)"
proof -
  define u where "u = connectionString (getDbUrl cfg (env d))"
  have n0: "next_fault w = None" using assms(4) by (simp add: fault_free_next numeral_2_eq_2)
  have f1: "fault_free 1 (called (Connect u) w)"
    using assms(4) fault_free_called [of 1 w] by (simp add: numeral_2_eq_2)
  then have n1: "next_fault (called (Connect u) w) = None" by (simp add: fault_free_next)
  show ?thesis
    using assms(1-3) n0 n1
    by (simp add: upsert_publish_def Let_def u_def [symmetric] client_connect_ok
        client_query_select) (simp add: truthy_def)
qed


section \<open>Releasing the connection\<close>

lemma acquired_called [simp]:
  "acquired (called ev w) = (if is_connect ev then Suc (acquired w) else acquired w)"
  by (simp add: acquired_def called_def)

lemma released_called [simp]:
  "released (called ev w) = (if is_end ev then Suc (released w) else released w)"
  by (simp add: released_def called_def)

lemma acquired_upd [simp]: "acquired (w\<lparr>stores := s, clock := t\<rparr>) = acquired w"
  by (simp add: acquired_def)

lemma released_upd [simp]: "released (w\<lparr>stores := s, clock := t\<rparr>) = released w"
  by (simp add: released_def)

lemma client_query_counts:
  "client_query c q vs w = (res, w') \<Longrightarrow> acquired w' = acquired w \<and> released w' = released w"
  by (auto simp: client_query_def split: option.splits sum.splits prod.splits)

lemma client_connect_counts:
  "client_connect c w = (res, w') \<Longrightarrow> acquired w' = Suc (acquired w) \<and> released w' = released w"
  by (auto simp: client_connect_def split: option.splits)

lemma client_end_counts:
  "client_end c w = (res, w') \<Longrightarrow> acquired w' = acquired w \<and> released w' = Suc (released w)"
  by (auto simp: client_end_def split: option.splits)

lemma update_branch_counts:
  "update_branch d c w = (out, cl, w') \<Longrightarrow>
   cl = Some c \<and> acquired w' = acquired w \<and> released w' = released w"
  by (auto simp: update_branch_def Let_def split: if_splits prod.splits sum.splits list.splits
      dest: client_query_counts)

lemma insert_branch_counts:
  "insert_branch d c w = (out, cl, w') \<Longrightarrow>
   cl = Some c \<and> acquired w' = acquired w \<and> released w' = released w"
  by (auto simp: insert_branch_def Let_def split: if_splits prod.splits sum.splits list.splits
      dest: client_query_counts)

lemma upsert_publish_counts:
  "upsert_publish cfg d w = (out, cl, w') \<Longrightarrow>
   (cl = None \<longrightarrow> w' = w) \<and>
   (cl \<noteq> None \<longrightarrow> acquired w' = Suc (acquired w) \<and> released w' = released w)"
  by (auto simp: upsert_publish_def Let_def split: if_splits prod.splits sum.splits
      dest!: client_query_counts client_connect_counts update_branch_counts insert_branch_counts)

lemma upsert_try_counts:
  "upsert_try cfg req w = (out, cl, w') \<Longrightarrow>
   (cl = None \<longrightarrow> w' = w) \<and>
   (cl \<noteq> None \<longrightarrow> acquired w' = Suc (acquired w) \<and> released w' = released w)"
  by (auto simp: upsert_try_def split: sum.splits dest!: upsert_publish_counts)


text \<open>
  The upsert service ends every client it connected, whatever the outcome: its
  \<open>finally\<close> block runs \<open>client.end()\<close> whenever \<open>client\<close> was assigned.
\<close>

lemma upsert_releases_what_it_acquires:
  "upsert_handler cfg req w = (res, rej, w') \<Longrightarrow>
   acquired w' + released w = released w' + acquired w \<and> acquired w' \<le> Suc (acquired w)"
  by (auto simp: upsert_handler_def Let_def split: if_splits prod.splits option.splits sum.splits
      dest!: upsert_try_counts client_end_counts)


text \<open>
  C3 fails for the update-only service, which has no \<open>finally\<close> block: when the
  query throws, the \<open>catch\<close> block answers with status 500 and \<open>client.end()\<close> is
  never reached. Here the connection succeeds and the query throws: one connection
  acquired, none released.
\<close>

theorem strict_query_failure_leaks_connection:
  "fst (strict_handler staging_config (post code_body)
          (world_with [svc_row] [None, Some ''Connection terminated unexpectedly''])) =
     Response 500 (ErrorJson ''Connection terminated unexpectedly'') \<and>
   acquired (snd (strict_handler staging_config (post code_body)
          (world_with [svc_row] [None, Some ''Connection terminated unexpectedly'']))) = 1 \<and>
   released (snd (strict_handler staging_config (post code_body)
          (world_with [svc_row] [None, Some ''Connection terminated unexpectedly'']))) = 0"
  by code_simp


section \<open>Creating a record\<close>

text \<open>
  C1 fails on the code: the creation check tests \<open>hasActions\<close> for truthiness, so
  the descriptor of the scenario, whose \<open>hasActions\<close> is \<open>false\<close>, is answered with
  status 400 and nothing is inserted (the only statement sent is the existence check).
\<close>

theorem creation_with_false_flag_rejected:
  "fst (upsert_handler staging_config (post flagless_body) (world_with [] [])) =
     Response 400
       (ErrorJson ''appName, appVersion and appCode are required when creating a new app'') \<and>
   stores (snd (snd (upsert_handler staging_config (post flagless_body) (world_with [] []))))
     staging_url = [] \<and>
   trace (snd (snd (upsert_handler staging_config (post flagless_body) (world_with [] [])))) =
     [Connect staging_url, Query staging_url (Select App_id App_id 1) [Raw (JStr ''a1'')],
      End staging_url]"
  by code_simp

text \<open>
  C4 fails on the code: when \<open>tags\<close> is absent, the eighth value bound to the
  insert is the array \<open>[]\<close> itself, not its serialized form: the expression
  \<open>tags ? JSON.stringify(tags) : []\<close> serializes only in its first branch. Here the
  creation succeeds and the statement sent carries the raw array; the same
  descriptor with an explicit \<open>tags: []\<close> binds the text \<open>JSON.stringify([])\<close>.
\<close>

theorem creation_without_tags_binds_raw_array:
  "fst (upsert_handler staging_config (post full_body) (world_with [] [])) =
     Response 200
       (CreatedJson (JStr ''staging'') (Some (Val (Raw (JStr ''a1'')))) (Some (Stamp 1))) \<and>
   trace (snd (snd (upsert_handler staging_config (post full_body) (world_with [] [])))) =
     [Connect staging_url,
      Query staging_url (Select App_id App_id 1) [Raw (JStr ''a1'')],
      Query staging_url
        (Insert [App_name, App_id, App_version, App_code, Has_triggers, Has_actions, Git_sha,
                 Tags, Created_at, Updated_at]
                [Dollar 1, Dollar 2, Dollar 3, Dollar 4, Dollar 5, Dollar 6, Dollar 7, Dollar 8,
                 CurrentTimestamp, CurrentTimestamp]
                [App_id, Created_at])
        [Raw (JStr ''svc''), Raw (JStr ''a1''), Raw (JStr ''1.0''), Raw (JStr ''code''),
         Raw (JBool True), Raw (JBool True), Raw JNull, Raw (JArr [])],
      End staging_url] \<and>
   insertValues (describe full_body) ! 7 = Raw (JArr []) \<and>
   insertValues (describe full_body) ! 7 \<noteq> JsonText (JArr []) \<and>
   insertValues (describe empty_tags_body) ! 7 = JsonText (JArr [])"
  by code_simp

section \<open>Updating a record\<close>

text \<open>
  C2 fails on the code: for a descriptor with only \<open>env\<close> and \<open>appId\<close> and an
  existing record, the update branch throws \<open>No fields provided to update\<close>, which
  the \<open>catch\<close> block answers with status 500, not 400. No update is sent.
\<close>

theorem empty_update_answers_500:
  "fst (upsert_handler staging_config (post bare_body) (world_with [svc_row] [])) =
     Response 500 (ErrorJson ''No fields provided to update'') \<and>
   stores (snd (snd (upsert_handler staging_config (post bare_body) (world_with [svc_row] []))))
     staging_url = [svc_row] \<and>
   trace (snd (snd (upsert_handler staging_config (post bare_body) (world_with [svc_row] [])))) =
     [Connect staging_url, Query staging_url (Select App_id App_id 1) [Raw (JStr ''a1'')],
      End staging_url]"
  by code_simp

lemma build_update_foldl:
  "build_update d =
     (let b = foldl push_field \<lparr>updates = [], vals = [], idx = 1\<rparr> (optional_fields d)
      in b\<lparr>updates := updates b @ [(Updated_at, CurrentTimestamp)]\<rparr>)"
  by (simp add: build_update_def optional_fields_def push_field_def strict_neq_def Let_def)

lemma push_field_triple:
  "push_field b (c, j, v) =
     (if v \<noteq> JUndef
      then b\<lparr>updates := updates b @ [assignment_of (idx b, c, j, v)],
             vals := vals b @ [value_of (c, j, v)], idx := Suc (idx b)\<rparr>
      else b)"
  by (simp add: push_field_def push_update_def)

lemma foldl_push_field:
  "foldl push_field b fs =
     \<lparr>updates = updates b @ map assignment_of (enumerate (idx b) (filter (\<lambda>(c, j, v). v \<noteq> JUndef) fs)),
      vals = vals b @ map value_of (filter (\<lambda>(c, j, v). v \<noteq> JUndef) fs),
      idx = idx b + length (filter (\<lambda>(c, j, v). v \<noteq> JUndef) fs)\<rparr>"
proof (induction fs arbitrary: b)
  case Nil
  show ?case by simp
next
  case (Cons f fs)
  obtain c j v where f: "f = (c, j, v)" by (cases f) auto
  show ?case
    by (simp add: Cons.IH f push_field_triple)
qed

lemma build_update_closed:
  "build_update d =
     \<lparr>updates = map assignment_of (enumerate 1 (present_fields d)) @ [(Updated_at, CurrentTimestamp)],
      vals = map value_of (present_fields d),
      idx = Suc (length (present_fields d))\<rparr>"
  by (simp add: build_update_foldl foldl_push_field present_fields_def Let_def)


text \<open>
  C8. The assignments and the bound values of the update branch line up: the i-th
  present optional field gives the i-th assignment, to its own column with the
  placeholder \<open>$i\<close> (with the \<open>jsonb\<close> cast for \<open>tags\<close>), and the i-th value, so
  that the placeholder evaluates to that field's value; the assignment of
  \<open>updated_at\<close> comes last and takes no value. The \<open>WHERE\<close> placeholder is one more
  than the number of present fields and evaluates to \<open>appId\<close>, the last value
  pushed. With at least one field present, the statement sent is built from exactly
  these lists.
\<close>

theorem update_placeholders_match_values:
  "updates (build_update d) =
     map assignment_of (enumerate 1 (present_fields d)) @ [(Updated_at, CurrentTimestamp)] \<and>
   vals (build_update d) = map value_of (present_fields d) \<and>
   idx (build_update d) = Suc (length (present_fields d)) \<and>
   (\<forall>i < length (present_fields d).
      fst (updates (build_update d) ! i) = fst (present_fields d ! i) \<and>
      snd (updates (build_update d) ! i) =
        (if fst (snd (present_fields d ! i)) then DollarJsonb (Suc i) else Dollar (Suc i)) \<and>
      vals (build_update d) ! i = value_of (present_fields d ! i) \<and>
      eval_rhs t (vals (build_update d) @ [Raw (appId d)]) (snd (updates (build_update d) ! i)) =
        Some (Val (value_of (present_fields d ! i)))) \<and>
   eval_rhs t (vals (build_update d) @ [Raw (appId d)]) (Dollar (idx (build_update d))) =
     Some (Val (Raw (appId d))) \<and>
   (0 < length (present_fields d) \<longrightarrow>
      added w (snd (snd (update_branch d client w))) =
        [Query client
           (Update (updates (build_update d)) App_id (Suc (length (present_fields d)))
              [App_id, Updated_at])
           (vals (build_update d) @ [Raw (appId d)])])"
proof -
  let ?p = "present_fields d"
  have pt: "\<forall>i < length ?p.
      fst (updates (build_update d) ! i) = fst (?p ! i) \<and>
      snd (updates (build_update d) ! i) =
        (if fst (snd (?p ! i)) then DollarJsonb (Suc i) else Dollar (Suc i)) \<and>
      vals (build_update d) ! i = value_of (?p ! i) \<and>
      eval_rhs t (vals (build_update d) @ [Raw (appId d)]) (snd (updates (build_update d) ! i)) =
        Some (Val (value_of (?p ! i)))"
  proof (intro allI impI)
    fix i assume i: "i < length ?p"
    obtain c j v where f: "?p ! i = (c, j, v)" by (cases "?p ! i") auto
    from i have "updates (build_update d) ! i = assignment_of (Suc i, ?p ! i)"
      by (simp add: build_update_closed nth_append nth_enumerate_eq)
    with i f show "fst (updates (build_update d) ! i) = fst (?p ! i) \<and>
      snd (updates (build_update d) ! i) =
        (if fst (snd (?p ! i)) then DollarJsonb (Suc i) else Dollar (Suc i)) \<and>
      vals (build_update d) ! i = value_of (?p ! i) \<and>
      eval_rhs t (vals (build_update d) @ [Raw (appId d)]) (snd (updates (build_update d) ! i)) =
        Some (Val (value_of (?p ! i)))"
      by (auto simp: build_update_closed nth_append)
  qed
  have wh: "eval_rhs t (vals (build_update d) @ [Raw (appId d)]) (Dollar (idx (build_update d))) =
     Some (Val (Raw (appId d)))"
    by (simp add: build_update_closed nth_append)
  have tr: "added w (snd (snd (update_branch d client w))) =
        [Query client
           (Update (updates (build_update d)) App_id (Suc (length ?p)) [App_id, Updated_at])
           (vals (build_update d) @ [Raw (appId d)])]" if "0 < length ?p"
  proof -
    have idx: "idx (build_update d) = Suc (length ?p)" by (simp add: build_update_closed)
    have len: "length (updates (build_update d)) \<noteq> 1"
      using that by (simp add: build_update_closed)
    have "trace (snd (snd (update_branch d client w))) =
        trace w @ [Query client
           (Update (updates (build_update d)) App_id (Suc (length ?p)) [App_id, Updated_at])
           (vals (build_update d) @ [Raw (appId d)])]"
      using len
      by (auto simp: update_branch_def Let_def idx split: prod.splits sum.splits list.splits
          dest: trace_client_query)
    then show ?thesis by (simp add: added_def)
  qed
  have up: "updates (build_update d) =
      map assignment_of (enumerate 1 ?p) @ [(Updated_at, CurrentTimestamp)]"
    and va: "vals (build_update d) = map value_of ?p"
    and ix: "idx (build_update d) = Suc (length ?p)"
    by (simp_all add: build_update_closed)
  from up va ix pt wh tr show ?thesis by blast
qed

theorem update_placeholders_match_values_witness:
  "present_fields (describe retag_body) =
     [(App_version, False, JStr ''1.1''), (Tags, True, JArr [JStr ''beta''])] \<and>
   updates (build_update (describe retag_body)) =
     [(App_version, Dollar 1), (Tags, DollarJsonb 2), (Updated_at, CurrentTimestamp)] \<and>
   vals (build_update (describe retag_body)) = [Raw (JStr ''1.1''), JsonText (JArr [JStr ''beta''])] \<and>
   idx (build_update (describe retag_body)) = 3 \<and>
   eval_rhs 0 (vals (build_update (describe retag_body)) @ [Raw (appId (describe retag_body))])
     (snd (updates (build_update (describe retag_body)) ! 1)) =
     Some (Val (JsonText (JArr [JStr ''beta'']))) \<and>
   added (world_with [svc_row] [])
     (snd (snd (update_branch (describe retag_body) staging_url (world_with [svc_row] [])))) =
     [Query staging_url
        (Update [(App_version, Dollar 1), (Tags, DollarJsonb 2), (Updated_at, CurrentTimestamp)]
           App_id 3 [App_id, Updated_at])
        [Raw (JStr ''1.1''), JsonText (JArr [JStr ''beta'']), Raw (JStr ''a1'')]]"
proof -
  let ?d = "describe retag_body"
  have p: "present_fields ?d = [(App_version, False, JStr ''1.1''), (Tags, True, JArr [JStr ''beta''])]"
    by (simp add: present_fields_def optional_fields_def fixture_defs retag_body_def)
  have i: "appId ?d = JStr ''a1''" by (simp add: fixture_defs retag_body_def)
  note t = update_placeholders_match_values [of ?d 0 "world_with [svc_row] []" staging_url]
  from t have u: "updates (build_update ?d) =
      map assignment_of (enumerate 1 (present_fields ?d)) @ [(Updated_at, CurrentTimestamp)]"
    and v: "vals (build_update ?d) = map value_of (present_fields ?d)"
    and x: "idx (build_update ?d) = Suc (length (present_fields ?d))"
    by blast+
  from t have "\<forall>i < length (present_fields ?d).
      eval_rhs 0 (vals (build_update ?d) @ [Raw (appId ?d)]) (snd (updates (build_update ?d) ! i)) =
        Some (Val (value_of (present_fields ?d ! i)))"
    by blast
  then have e1: "eval_rhs 0 (vals (build_update ?d) @ [Raw (appId ?d)])
      (snd (updates (build_update ?d) ! 1)) = Some (Val (value_of (present_fields ?d ! 1)))"
    by (simp add: p)
  from t have "0 < length (present_fields ?d) \<longrightarrow>
      added (world_with [svc_row] [])
        (snd (snd (update_branch ?d staging_url (world_with [svc_row] [])))) =
        [Query staging_url
           (Update (updates (build_update ?d)) App_id (Suc (length (present_fields ?d)))
              [App_id, Updated_at])
           (vals (build_update ?d) @ [Raw (appId ?d)])]"
    by blast
  then have ad: "added (world_with [svc_row] [])
        (snd (snd (update_branch ?d staging_url (world_with [svc_row] [])))) =
        [Query staging_url
           (Update (updates (build_update ?d)) App_id (Suc (length (present_fields ?d)))
              [App_id, Updated_at])
           (vals (build_update ?d) @ [Raw (appId ?d)])]"
    by (simp add: p)
  have u': "updates (build_update ?d) =
      [(App_version, Dollar 1), (Tags, DollarJsonb 2), (Updated_at, CurrentTimestamp)]"
    by (simp add: u p numeral_2_eq_2)
  have v': "vals (build_update ?d) = [Raw (JStr ''1.1''), JsonText (JArr [JStr ''beta''])]"
    by (simp add: v p)
  have x': "idx (build_update ?d) = 3" by (simp add: x p)
  from e1 have e1': "eval_rhs 0 (vals (build_update ?d) @ [Raw (appId ?d)])
      (snd (updates (build_update ?d) ! 1)) = Some (Val (JsonText (JArr [JStr ''beta''])))"
    by (simp add: p)
  from ad have ad': "added (world_with [svc_row] [])
        (snd (snd (update_branch ?d staging_url (world_with [svc_row] [])))) =
     [Query staging_url
        (Update [(App_version, Dollar 1), (Tags, DollarJsonb 2), (Updated_at, CurrentTimestamp)]
           App_id 3 [App_id, Updated_at])
        [Raw (JStr ''1.1''), JsonText (JArr [JStr ''beta'']), Raw (JStr ''a1'')]]"
    by (simp add: u' v' p i numeral_3_eq_3)
  from p u' v' x' e1' ad' show ?thesis by blast
qed


lemma exec_update_git_sha:
  assumes "truthy a"
  shows "exec_query t (Update [(Git_sha, Dollar (Suc 0)), (Updated_at, CurrentTimestamp)] App_id
            (Suc (Suc 0)) ret) [Raw g, Raw a] tbl =
     Inr (\<lparr>rowCount = length (records_of a tbl),
           rows = map (\<lambda>r. project ret (r\<lparr>git_sha := Val (Raw g), updated_at := Stamp t\<rparr>))
                    (records_of a tbl)\<rparr>,
          map (\<lambda>r. if app_id r = Val (Raw a)
                    then r\<lparr>git_sha := Val (Raw g), updated_at := Stamp t\<rparr> else r) tbl)"
  using matches_app_id [OF assms, of "[Raw g]"] filter_matches_app_id [OF assms, of "[Raw g]" tbl]
  by (simp add: Let_def)

lemma build_update_git_sha_only:
  assumes "appName d = JUndef" "appVersion d = JUndef" "appCode d = JUndef"
    "hasTriggers d = JUndef" "hasActions d = JUndef" "tags d = JUndef" "gitSha d \<noteq> JUndef"
  shows "build_update d =
     \<lparr>updates = [(Git_sha, Dollar (Suc 0)), (Updated_at, CurrentTimestamp)],
      vals = [Raw (gitSha d)], idx = Suc (Suc 0)\<rparr>"
  using assms by (simp add: build_update_def push_update_def strict_neq_def Let_def)

lemma update_branch_git_sha_only:
  assumes only: "appName d = JUndef" "appVersion d = JUndef" "appCode d = JUndef"
    "hasTriggers d = JUndef" "hasActions d = JUndef" "tags d = JUndef" "gitSha d \<noteq> JUndef"
    and a: "truthy (appId d)"
    and nf: "next_fault w = None"
    and ex: "records_of (appId d) (stores w u) \<noteq> []"
  shows "update_branch d u w =
     (Inr (Response 200 (UpdatedJson (env d) (Some (Val (Raw (appId d)))) (Some (Stamp (clock w))))),
      Some u,
      called (Query u (Update [(Git_sha, Dollar (Suc 0)), (Updated_at, CurrentTimestamp)] App_id
                 (Suc (Suc 0)) [App_id, Updated_at]) [Raw (gitSha d), Raw (appId d)])
        (w\<lparr>stores := (stores w)(u := map (\<lambda>r. if app_id r = Val (Raw (appId d))
                    then r\<lparr>git_sha := Val (Raw (gitSha d)), updated_at := Stamp (clock w)\<rparr> else r)
                    (stores w u)),
           clock := Suc (clock w)\<rparr>))"
proof -
  obtain r rs where rs: "records_of (appId d) (stores w u) = r # rs"
    using ex by (cases "records_of (appId d) (stores w u)") auto
  then have "r \<in> set (records_of (appId d) (stores w u))" by simp
  then have r: "app_id r = Val (Raw (appId d))" by (simp add: records_of_def)
  show ?thesis
    using nf rs r
    by (simp add: update_branch_def build_update_git_sha_only [OF only] client_query_def
        exec_update_git_sha [OF a] project_def del: exec_query.simps)
qed

lemma get_col_unchanged:
  "c \<noteq> Git_sha \<Longrightarrow> c \<noteq> Updated_at \<Longrightarrow>
   get_col c (r\<lparr>git_sha := x, updated_at := y\<rparr>) = get_col c r"
  by (cases c) simp_all


text \<open>
  C6. For a descriptor with only \<open>env\<close>, \<open>appId\<close> and \<open>gitSha\<close>, an existing record
  and no throwing call, the service answers \<open>updated\<close>; in the store of the
  environment the rows of that \<open>appId\<close> get the new \<open>git_sha\<close> and the statement's
  timestamp as \<open>updated_at\<close>, every other column of every row keeps its value, and
  the other stores are untouched.
\<close>

theorem partial_update_touches_only_git_sha:
  assumes c: "carries req d"
    and only: "appName d = JUndef" "appVersion d = JUndef" "appCode d = JUndef"
      "hasTriggers d = JUndef" "hasActions d = JUndef" "tags d = JUndef" "gitSha d \<noteq> JUndef"
    and e: "truthy (env d)" and a: "truthy (appId d)"
    and url: "truthy (getDbUrl cfg (env d))" "u = connectionString (getDbUrl cfg (env d))"
    and ff: "fault_free 3 w"
    and ex: "records_of (appId d) (stores w u) \<noteq> []"
  shows "fst (upsert_handler cfg req w) =
           Response 200 (UpdatedJson (env d) (Some (Val (Raw (appId d))))
             (Some (Stamp (Suc (clock w))))) \<and>
         stores (snd (snd (upsert_handler cfg req w))) u =
           map (\<lambda>r. if app_id r = Val (Raw (appId d))
                     then r\<lparr>git_sha := Val (Raw (gitSha d)), updated_at := Stamp (Suc (clock w))\<rparr>
                     else r) (stores w u) \<and>
         (\<forall>c. c \<noteq> Git_sha \<and> c \<noteq> Updated_at \<longrightarrow>
            map (get_col c) (stores (snd (snd (upsert_handler cfg req w))) u) =
              map (get_col c) (stores w u)) \<and>
         (\<forall>u'. u' \<noteq> u \<longrightarrow> stores (snd (snd (upsert_handler cfg req w))) u' = stores w u')"
proof -
  define w2 where "w2 = called (Query u (Select App_id App_id 1) [Raw (appId d)])
                 ((called (Connect u) w)\<lparr>clock := Suc (clock w)\<rparr>)"
  have ff2: "fault_free 2 w"
    using ff fault_free_less [of 2 w] by (simp add: numeral_3_eq_3 numeral_2_eq_2)
  have "fault_free 2 (called (Connect u) w)"
    using ff fault_free_called [of 2 w] by (simp add: numeral_3_eq_3 numeral_2_eq_2)
  then have "fault_free 1 w2"
    using fault_free_called [of 1 "(called (Connect u) w)\<lparr>clock := Suc (clock w)\<rparr>"]
    by (simp add: w2_def numeral_2_eq_2 fault_free_def)
  then have nf: "next_fault w2 = None" by (simp add: fault_free_next)
  have st: "stores w2 = stores w" and ck: "clock w2 = Suc (clock w)"
    by (simp_all add: w2_def)
  from ex have ex2: "records_of (appId d) (stores w2 u) \<noteq> []" by (simp add: st)
  have pub: "upsert_publish cfg d w = update_branch d u w2"
    using upsert_publish_reaches_branch [OF e a url(1) ff2] ex
    by (simp add: Let_def url(2) w2_def)
  note ub = update_branch_git_sha_only [OF only a nf ex2]
  obtain res rej w' where h: "upsert_handler cfg req w = (res, rej, w')"
    by (cases "upsert_handler cfg req w") auto
  from h have res: "res = Response 200 (UpdatedJson (env d) (Some (Val (Raw (appId d))))
             (Some (Stamp (Suc (clock w)))))"
    and sto: "stores w' = (stores w)(u := map (\<lambda>r. if app_id r = Val (Raw (appId d))
                     then r\<lparr>git_sha := Val (Raw (gitSha d)), updated_at := Stamp (Suc (clock w))\<rparr>
                     else r) (stores w u))"
    by (auto simp: upsert_handler_carries [OF c] pub ub st ck Let_def
        split: prod.splits sum.splits dest!: client_end_keeps)
  have fr: "map (get_col c) (stores w' u) = map (get_col c) (stores w u)"
    if "c \<noteq> Git_sha \<and> c \<noteq> Updated_at" for c
    using that by (simp add: sto get_col_unchanged o_def cong: map_cong)
  from res sto fr show ?thesis by (simp add: h)
qed

theorem partial_update_touches_only_git_sha_witness:
  "carries (post sha_body) (describe sha_body) \<and>
   gitSha (describe sha_body) = JStr ''9fceb02'' \<and>
   appVersion (describe sha_body) = JUndef \<and>
   fault_free 3 (world_with [svc_row, other_row] []) \<and>
   records_of (appId (describe sha_body)) (stores (world_with [svc_row, other_row] []) staging_url) =
     [svc_row] \<and>
   fst (upsert_handler staging_config (post sha_body) (world_with [svc_row, other_row] [])) =
     Response 200 (UpdatedJson (JStr ''staging'') (Some (Val (Raw (JStr ''a1'')))) (Some (Stamp 1))) \<and>
   stores (snd (snd (upsert_handler staging_config (post sha_body)
                       (world_with [svc_row, other_row] [])))) staging_url =
     [svc_row\<lparr>git_sha := Val (Raw (JStr ''9fceb02'')), updated_at := Stamp 1\<rparr>, other_row] \<and>
   map (get_col App_name) (stores (snd (snd (upsert_handler staging_config (post sha_body)
                       (world_with [svc_row, other_row] [])))) staging_url) =
     map (get_col App_name) [svc_row, other_row]"
proof -
  let ?d = "describe sha_body" and ?w = "world_with [svc_row, other_row] []"
  have c: "carries (post sha_body) ?d" by (simp add: fixture_defs sha_body_def)
  have only: "appName ?d = JUndef" "appVersion ?d = JUndef" "appCode ?d = JUndef"
      "hasTriggers ?d = JUndef" "hasActions ?d = JUndef" "tags ?d = JUndef" "gitSha ?d \<noteq> JUndef"
    by (simp_all add: fixture_defs sha_body_def)
  have e: "truthy (env ?d)" and a: "truthy (appId ?d)"
    by (simp_all add: fixture_defs sha_body_def)
  have url: "truthy (getDbUrl staging_config (env ?d))"
      "staging_url = connectionString (getDbUrl staging_config (env ?d))"
    by (simp_all add: fixture_defs sha_body_def staging_url_def)
  have ff: "fault_free 3 ?w" by (simp add: fixture_defs)
  have ex: "records_of (appId ?d) (stores ?w staging_url) = [svc_row]"
    by (simp add: fixture_defs sha_body_def)
  then have ex': "records_of (appId ?d) (stores ?w staging_url) \<noteq> []" by simp
  have g: "gitSha ?d = JStr ''9fceb02''" and i: "appId ?d = JStr ''a1''"
    and en: "env ?d = JStr ''staging''"
    by (simp_all add: fixture_defs sha_body_def)
  have ck: "clock ?w = 0" and st: "stores ?w staging_url = [svc_row, other_row]"
    by (simp_all add: world_with_def)
  have nm: "app_id svc_row = Val (Raw (JStr ''a1''))" "app_id other_row \<noteq> Val (Raw (JStr ''a1''))"
    by (simp_all add: svc_row_def other_row_def)
  from partial_update_touches_only_git_sha [OF c only e a url ff ex'] c only(2) ff ex
  show ?thesis by (simp add: g i en ck st nm)
qed


section \<open>The update-only service never creates\<close>

lemma exec_strict_query:
  assumes "truthy a"
  shows "exec_query t strict_query [Raw code, Raw a] tbl =
     Inr (\<lparr>rowCount = length (records_of a tbl),
           rows = map (\<lambda>r. project [App_id, Updated_at]
                           (r\<lparr>app_code := Val (Raw code), updated_at := Stamp t\<rparr>))
                    (records_of a tbl)\<rparr>,
          map (\<lambda>r. if app_id r = Val (Raw a)
                    then r\<lparr>app_code := Val (Raw code), updated_at := Stamp t\<rparr> else r) tbl)"
  using matches_app_id [OF assms, of "[Raw code]"]
    filter_matches_app_id [OF assms, of "[Raw code]" tbl]
  by (simp add: strict_query_def Let_def numeral_2_eq_2)

lemma strict_publish_added:
  assumes "strict_publish cfg d w = (out, w')"
  shows "\<exists>es. trace w' = trace w @ es \<and>
     es \<in> {[], [Connect (connectionString (getDbUrl cfg (env d)))],
           [Connect (connectionString (getDbUrl cfg (env d))),
            Query (connectionString (getDbUrl cfg (env d))) strict_query
              [Raw (appCode d), Raw (appId d)]],
           [Connect (connectionString (getDbUrl cfg (env d))),
            Query (connectionString (getDbUrl cfg (env d))) strict_query
              [Raw (appCode d), Raw (appId d)],
            End (connectionString (getDbUrl cfg (env d)))]}"
  using assms
  by (auto simp: strict_publish_def Let_def
      split: if_splits prod.splits sum.splits list.splits
      dest!: trace_client_connect trace_client_query client_end_keeps)

lemma strict_handler_never_inserts:
  "filter is_insert (added w (snd (strict_handler cfg req w))) = []"
proof (cases "carries req (describe (the (parsed req)))")
  case True
  obtain out w' where p: "strict_publish cfg (describe (the (parsed req))) w = (out, w')"
    by (cases "strict_publish cfg (describe (the (parsed req))) w") auto
  from strict_publish_added [OF p] obtain es where
    "trace w' = trace w @ es" "filter is_insert es = []"
    by (auto simp: strict_query_def)
  then show ?thesis
    by (simp add: strict_handler_carries [OF True] p added_def split: sum.splits)
next
  case False
  then have "snd (strict_handler cfg req w) = w"
    by (auto simp: strict_handler_def carries_def readBody_def describe_def strict_neq_def
        split: option.splits sum.splits)
  then show ?thesis by (simp add: added_def)
qed

lemma get_col_unchanged_strict:
  "c \<noteq> App_code \<Longrightarrow> c \<noteq> Updated_at \<Longrightarrow>
   get_col c (r\<lparr>app_code := x, updated_at := y\<rparr>) = get_col c r"
  by (cases c) simp_all

lemma strict_publish_runs_update:
  assumes e: "truthy (env d)" and a: "truthy (appId d)" and k: "truthy (appCode d)"
    and url: "truthy (getDbUrl cfg (env d))" "u = connectionString (getDbUrl cfg (env d))"
    and ff: "fault_free 2 w"
  shows "strict_publish cfg d w =
     (let tbl = map (\<lambda>r. if app_id r = Val (Raw (appId d))
                    then r\<lparr>app_code := Val (Raw (appCode d)), updated_at := Stamp (clock w)\<rparr>
                    else r) (stores w u);
          w2 = called (Query u strict_query [Raw (appCode d), Raw (appId d)])
                 ((called (Connect u) w)\<lparr>stores := (stores w)(u := tbl), clock := Suc (clock w)\<rparr>)
      in case client_end u w2 of
           (Inl msg, w3) \<Rightarrow> (Inl msg, w3)
         | (Inr x, w3) \<Rightarrow>
             if records_of (appId d) (stores w u) = []
             then (Inr (Response 404 (ErrorJson ''App not found'')), w3)
             else (Inr (Response 200 (PublishedJson (env d) (Some (Val (Raw (appId d))))
                          (Some (Stamp (clock w))))), w3))"
proof -
  have n0: "next_fault w = None" using ff by (simp add: fault_free_next numeral_2_eq_2)
  have f1: "fault_free 1 (called (Connect u) w)"
    using ff fault_free_called [of 1 w] by (simp add: numeral_2_eq_2)
  then have n1: "next_fault (called (Connect u) w) = None" by (simp add: fault_free_next)
  have hd: "app_id (hd (records_of (appId d) (stores w u))) = Val (Raw (appId d))"
    if "records_of (appId d) (stores w u) \<noteq> []"
  proof -
    from that have "hd (records_of (appId d) (stores w u)) \<in> set (records_of (appId d) (stores w u))"
      by simp
    then show ?thesis by (simp add: records_of_def)
  qed
  show ?thesis
    using e a k url(1) n0 n1 hd
    by (cases "records_of (appId d) (stores w u)")
      (auto simp: strict_publish_def Let_def url(2) [symmetric] client_connect_ok client_query_def
        exec_strict_query [OF a] truthy_def project_def
        simp del: exec_query.simps split: prod.splits sum.splits)
qed


text \<open>
  C7. A publish of the update-only service with its required fields and a resolved
  environment sends, when no call throws, exactly one statement between connecting
  and ending: the update of \<open>app_code\<close> (from \<open>$1\<close>) and \<open>updated_at\<close> (to the
  current time) where \<open>app_id = $2\<close>, bound to \<open>appCode\<close> and \<open>appId\<close>. The rows of
  that \<open>appId\<close> change in these two columns only. When no row matches, the answer
  is status 404 \<open>App not found\<close> and all stores are as before. Under any fault
  script the calls made are an initial segment of connect, that update, end; and no
  request at all makes the service send an insert.
\<close>

theorem strict_update_only_touches_app_code:
  assumes c: "carries req d"
    and e: "truthy (env d)" and a: "truthy (appId d)" and k: "truthy (appCode d)"
    and url: "truthy (getDbUrl cfg (env d))" "u = connectionString (getDbUrl cfg (env d))"
    and ff: "fault_free 3 w"
  shows "added w (snd (strict_handler cfg req w)) =
           [Connect u,
            Query u (Update [(App_code, Dollar 1), (Updated_at, NowCall)] App_id 2
                       [App_id, Updated_at]) [Raw (appCode d), Raw (appId d)],
            End u] \<and>
         stores (snd (strict_handler cfg req w)) u =
           map (\<lambda>r. if app_id r = Val (Raw (appId d))
                     then r\<lparr>app_code := Val (Raw (appCode d)), updated_at := Stamp (clock w)\<rparr>
                     else r) (stores w u) \<and>
         (\<forall>c. c \<noteq> App_code \<and> c \<noteq> Updated_at \<longrightarrow>
            map (get_col c) (stores (snd (strict_handler cfg req w)) u) =
              map (get_col c) (stores w u)) \<and>
         (records_of (appId d) (stores w u) = [] \<longrightarrow>
            fst (strict_handler cfg req w) = Response 404 (ErrorJson ''App not found'') \<and>
            stores (snd (strict_handler cfg req w)) = stores w) \<and>
         added w1 (snd (strict_handler cfg req w1)) =
           take (length (added w1 (snd (strict_handler cfg req w1))))
             [Connect u,
              Query u (Update [(App_code, Dollar 1), (Updated_at, NowCall)] App_id 2
                         [App_id, Updated_at]) [Raw (appCode d), Raw (appId d)],
              End u] \<and>
         filter is_insert (added w0 (snd (strict_handler cfg0 req0 w0))) = []"
proof -
  define tbl where "tbl = map (\<lambda>r. if app_id r = Val (Raw (appId d))
                    then r\<lparr>app_code := Val (Raw (appCode d)), updated_at := Stamp (clock w)\<rparr>
                    else r) (stores w u)"
  define w2 where "w2 = called (Query u strict_query [Raw (appCode d), Raw (appId d)])
                 ((called (Connect u) w)\<lparr>stores := (stores w)(u := tbl), clock := Suc (clock w)\<rparr>)"
  have ff2: "fault_free 2 w"
    using ff fault_free_less [of 2 w] by (simp add: numeral_3_eq_3 numeral_2_eq_2)
  have "fault_free 2 (called (Connect u) w)"
    using ff fault_free_called [of 2 w] by (simp add: numeral_3_eq_3 numeral_2_eq_2)
  then have "fault_free 1 w2"
    using fault_free_called [of 1 "(called (Connect u) w)\<lparr>stores := (stores w)(u := tbl), clock := Suc (clock w)\<rparr>"]
    by (simp add: w2_def numeral_2_eq_2 fault_free_def)
  then have nf: "next_fault w2 = None" by (simp add: fault_free_next)
  then have en: "client_end u w2 = (Inr (), called (End u) w2)"
    by (simp add: client_end_def)
  have pub: "strict_publish cfg d w =
      (if records_of (appId d) (stores w u) = []
       then (Inr (Response 404 (ErrorJson ''App not found'')), called (End u) w2)
       else (Inr (Response 200 (PublishedJson (env d) (Some (Val (Raw (appId d))))
                          (Some (Stamp (clock w))))), called (End u) w2))"
    using strict_publish_runs_update [OF e a k url ff2]
    by (simp add: Let_def tbl_def [symmetric] w2_def [symmetric] en)
  have h: "strict_handler cfg req w =
      (if records_of (appId d) (stores w u) = []
       then Response 404 (ErrorJson ''App not found'')
       else Response 200 (PublishedJson (env d) (Some (Val (Raw (appId d))))
                          (Some (Stamp (clock w)))), called (End u) w2)"
    by (simp add: strict_handler_carries [OF c] pub)
  have tr: "added w (snd (strict_handler cfg req w)) =
           [Connect u,
            Query u (Update [(App_code, Dollar 1), (Updated_at, NowCall)] App_id 2
                       [App_id, Updated_at]) [Raw (appCode d), Raw (appId d)],
            End u]"
    by (simp add: h added_def w2_def strict_query_def)
  have sto: "stores (snd (strict_handler cfg req w)) u = tbl"
    by (simp add: h w2_def)
  have fr: "map (get_col c) (stores (snd (strict_handler cfg req w)) u) =
              map (get_col c) (stores w u)" if "c \<noteq> App_code \<and> c \<noteq> Updated_at" for c
    using that by (simp add: sto tbl_def get_col_unchanged_strict o_def cong: map_cong)
  have nomatch: "tbl = stores w u" if "records_of (appId d) (stores w u) = []"
  proof -
    from that have "\<forall>r \<in> set (stores w u). app_id r \<noteq> Val (Raw (appId d))"
      by (simp add: records_of_def filter_empty_conv)
    then show ?thesis by (simp add: tbl_def cong: map_cong)
  qed
  have nf404: "fst (strict_handler cfg req w) = Response 404 (ErrorJson ''App not found'') \<and>
            stores (snd (strict_handler cfg req w)) = stores w"
    if "records_of (appId d) (stores w u) = []"
    using that nomatch by (simp add: h w2_def)
  have pre: "added w1 (snd (strict_handler cfg req w1)) =
           take (length (added w1 (snd (strict_handler cfg req w1))))
             [Connect u,
              Query u (Update [(App_code, Dollar 1), (Updated_at, NowCall)] App_id 2
                         [App_id, Updated_at]) [Raw (appCode d), Raw (appId d)],
              End u]"
  proof -
    obtain out w' where p: "strict_publish cfg d w1 = (out, w')"
      by (cases "strict_publish cfg d w1") auto
    have "snd (strict_handler cfg req w1) = w'"
      by (simp add: strict_handler_carries [OF c] p split: sum.splits)
    with strict_publish_added [OF p] show ?thesis
      by (auto simp: added_def url(2) strict_query_def)
  qed
  from tr sto fr nf404 pre strict_handler_never_inserts [of w0 cfg0 req0]
  show ?thesis by (simp add: tbl_def)
qed

theorem strict_update_only_touches_app_code_witness:
  "carries (post code_body) (describe code_body) \<and>
   truthy (appCode (describe code_body)) \<and>
   fault_free 3 (world_with [other_row] []) \<and>
   records_of (appId (describe code_body)) (stores (world_with [other_row] []) staging_url) = [] \<and>
   added (world_with [other_row] [])
     (snd (strict_handler staging_config (post code_body) (world_with [other_row] []))) =
     [Connect staging_url,
      Query staging_url (Update [(App_code, Dollar 1), (Updated_at, NowCall)] App_id 2
                 [App_id, Updated_at]) [Raw (JStr ''code v2''), Raw (JStr ''a1'')],
      End staging_url] \<and>
   fst (strict_handler staging_config (post code_body) (world_with [other_row] [])) =
     Response 404 (ErrorJson ''App not found'') \<and>
   stores (snd (strict_handler staging_config (post code_body) (world_with [other_row] []))) =
     stores (world_with [other_row] []) \<and>
   map (get_col App_name)
     (stores (snd (strict_handler staging_config (post code_body) (world_with [other_row] [])))
        staging_url) =
     map (get_col App_name) (stores (world_with [other_row] []) staging_url)"
proof -
  let ?d = "describe code_body" and ?w = "world_with [other_row] []"
  have c: "carries (post code_body) ?d" by (simp add: fixture_defs code_body_def)
  have e: "truthy (env ?d)" and a: "truthy (appId ?d)" and k: "truthy (appCode ?d)"
    by (simp_all add: fixture_defs code_body_def)
  have url: "truthy (getDbUrl staging_config (env ?d))"
      "staging_url = connectionString (getDbUrl staging_config (env ?d))"
    by (simp_all add: fixture_defs code_body_def staging_url_def)
  have ff: "fault_free 3 ?w" by (simp add: fixture_defs)
  have new: "records_of (appId ?d) (stores ?w staging_url) = []"
    by (simp add: fixture_defs code_body_def)
  have v: "appId ?d = JStr ''a1''" "appCode ?d = JStr ''code v2''"
    by (simp_all add: fixture_defs code_body_def)
  have nc: "App_name \<noteq> App_code \<and> App_name \<noteq> Updated_at" by simp
  from strict_update_only_touches_app_code [OF c e a k url ff, of ?w ?w staging_config "post code_body"]
    c k ff new nc
  show ?thesis unfolding v by blast
qed


end
